theory Spec2Isabelle
  imports Main
begin

section \<open>The meal repository over a relational store\<close>

text \<open>
  The source is \<^verbatim>\<open>backend/infrastructure/sqlalchemy/repositories/meal.py\<close>: the class
  \<^verbatim>\<open>SQLAlchemyMealRepository\<close> with the helper \<^verbatim>\<open>_get_schema_by_code\<close> and the five
  operations \<^verbatim>\<open>get_by_code\<close>, \<^verbatim>\<open>get_by_id\<close>, \<^verbatim>\<open>get_with_id_by_code\<close>,
  \<^verbatim>\<open>get_id_by_code\<close> and \<^verbatim>\<open>create_by_code\<close>. Every operation opens a session and a
  transaction, runs its queries and returns. The embedding passes the database explicitly:
  an operation takes the stored tables and returns its outcome together with the tables as
  they stand afterwards. An exception of the source is the left summand of the outcome.
\<close>

subsection \<open>Rows and entities\<close>

text \<open>
  The meal slot is \<^verbatim>\<open>Literal["..", "..", ".."]\<close> in the signature of
  \<^verbatim>\<open>get_id_by_code\<close>: the Korean words for breakfast, lunch and dinner, in this order.
\<close>

datatype meal_name = Breakfast | Lunch | Dinner

text \<open>\<^verbatim>\<open>datetime.date\<close>; the repository only compares dates for equality.\<close>

datatype date = Date (year: int) (month: int) (day: int)

text \<open>
  The domain entity \<^verbatim>\<open>Meal\<close> (\<^verbatim>\<open>backend.domain.entities.meal\<close>). Its declaration is
  not among the source files; the fields are the ones \<^verbatim>\<open>create_by_code\<close> reads and the
  spec lists. The types of the calorie value and of a comment are left as the type
  parameters \<open>'c\<close> and \<open>'k\<close>.
\<close>

record ('c, 'k) Meal =
  name :: meal_name
  dish_name :: string
  calorie :: 'c
  date :: date
  comments :: "'k list"

text \<open>
  The row shape \<^verbatim>\<open>SchoolInfoSchema\<close>: the columns the queries of the repository use.
  The column \<^verbatim>\<open>id\<close> is written \<open>id'\<close>. The relationship \<^verbatim>\<open>SchoolInfoSchema.meals\<close> is
  the set of meal rows whose foreign key is the row's id, see \<open>selectinload_meals\<close>.
\<close>

record SchoolInfoSchema =
  id' :: int
  edu_office_code :: string
  standard_school_code :: string

text \<open>
  The row shape \<^verbatim>\<open>MealSchema\<close>: the columns are the keyword arguments of the constructor
  call in \<^verbatim>\<open>create_by_code\<close> and the primary key \<^verbatim>\<open>id\<close> that the queries select.
\<close>

record ('c, 'k) MealSchema =
  id' :: int
  school_info_id :: int
  name :: meal_name
  dish_name :: string
  calorie :: 'c
  date :: date
  comments :: "'k list"

text \<open>
  Modelled from the spec: \<^verbatim>\<open>MealSchema.to_entity\<close> is declared in
  \<^verbatim>\<open>backend.infrastructure.sqlalchemy.entities.meal\<close>, which is not among the source
  files. The spec calls it the conversion of a persisted row to the domain entity, and the
  entity has the attributes name, dish_name, calorie, date and comments, while the row's
  identifier is "not part of the domain entity itself": the conversion keeps the five
  attributes and drops the two keys.
\<close>

definition to_entity :: "('c, 'k) MealSchema \<Rightarrow> ('c, 'k) Meal" where
  "to_entity schema =
     \<lparr>Meal.name = MealSchema.name schema,
      Meal.dish_name = MealSchema.dish_name schema,
      Meal.calorie = MealSchema.calorie schema,
      Meal.date = MealSchema.date schema,
      Meal.comments = MealSchema.comments schema\<rparr>"

text \<open>
  \<^verbatim>\<open>CreateMealStatus\<close> (\<^verbatim>\<open>backend.domain.enum\<close>): the repository uses one member.
\<close>

datatype CreateMealStatus = SCHOOL_INFO_NOT_FOUND

subsection \<open>The database and the query primitives\<close>

text \<open>
  The stored state: the two tables, each a list of rows in the order the engine returns
  them. Nothing in the repository deletes or updates a row.
\<close>

record ('c, 'k) database =
  school_info_table :: "SchoolInfoSchema list"
  meal_table :: "('c, 'k) MealSchema list"

text \<open>
  The exceptions that the calls of the repository can raise on a reachable store:
  \<^verbatim>\<open>MultipleResultsFound\<close> from \<^verbatim>\<open>scalar_one_or_none\<close>, and the error of the engine or
  its driver, for a scalar subquery that yields more than one row and for a parameter that
  does not fit the column it is bound to.
\<close>

datatype error = MultipleResultsFound | DBAPIError

text \<open>
  \<^verbatim>\<open>Result.scalar_one_or_none()\<close>: no row gives \<^verbatim>\<open>None\<close>, one row gives its value, more
  rows raise.
\<close>

fun scalar_one_or_none :: "'a list \<Rightarrow> error + 'a option" where
  "scalar_one_or_none [] = Inr None"
| "scalar_one_or_none [x] = Inr (Some x)"
| "scalar_one_or_none (x # y # rows) = Inl MultipleResultsFound"

text \<open>
  \<^verbatim>\<open>Select.scalar_subquery()\<close> used as the right operand of \<^verbatim>\<open>==\<close>: no row is SQL
  \<^verbatim>\<open>NULL\<close>, which no foreign key equals; one row is its value. For more than one row the
  behaviour belongs to the engine; standard SQL raises a cardinality violation, which is
  what the embedding does. The theorems on \<^verbatim>\<open>get_id_by_code\<close> assume that at most
  one school-info row matches and do not depend on this choice. The two counterexamples
  with two matching rows give the outcome of the embedding and add that it is not the id
  of the meal at the second row, which an engine that takes the first row of the subquery
  does not find either.
\<close>

fun scalar_subquery :: "'a list \<Rightarrow> error + 'a option" where
  "scalar_subquery [] = Inr None"
| "scalar_subquery [x] = Inr (Some x)"
| "scalar_subquery (x # y # rows) = Inl DBAPIError"

text \<open>
  \<^verbatim>\<open>async with self.sa.session_maker() as session: async with session.begin():\<close> runs
  its body in a transaction that is committed when the body returns and rolled back when it
  raises: after an exception the store is the one the transaction started from.
\<close>

definition session_begin ::
  "('s \<Rightarrow> (error + 'a) \<times> 's) \<Rightarrow> 's \<Rightarrow> (error + 'a) \<times> 's" where
  "session_begin body db =
     (case body db of
        (Inl e, db') \<Rightarrow> (Inl e, db)
      | (Inr v, db') \<Rightarrow> (Inr v, db'))"

text \<open>
  The \<^verbatim>\<open>where\<close> clause on the two school codes, shared by all queries on
  \<^verbatim>\<open>SchoolInfoSchema\<close>.
\<close>

definition where_code :: "string \<Rightarrow> string \<Rightarrow> SchoolInfoSchema \<Rightarrow> bool" where
  "where_code eoc ssc school_info \<longleftrightarrow>
     edu_office_code school_info = eoc \<and> standard_school_code school_info = ssc"

text \<open>
  \<^verbatim>\<open>selectinload(SchoolInfoSchema.meals.and_(MealSchema.date == date))\<close>: the meals
  collection of one school-info row, restricted to the date.
\<close>

definition selectinload_meals ::
  "('c, 'k) database \<Rightarrow> date \<Rightarrow> SchoolInfoSchema \<Rightarrow> ('c, 'k) MealSchema list" where
  "selectinload_meals db d school_info =
     filter (\<lambda>meal. school_info_id meal = SchoolInfoSchema.id' school_info \<and> MealSchema.date meal = d)
       (meal_table db)"

text \<open>
  The key column of the meal table is an SQL integer, and a key passed by the caller is
  bound to that type before the select runs: a Python \<^verbatim>\<open>int\<close> outside the type's range
  makes the driver raise (an overflow error or a data error, by engine). The width of the
  column is declared in \<^verbatim>\<open>MealSchema\<close>, which is not among the source files; it is the
  parameter \<open>bits\<close>, the type being the signed integers of that many bits.
\<close>

definition sql_integer :: "nat \<Rightarrow> int \<Rightarrow> bool" where
  "sql_integer bits k \<longleftrightarrow> - (2 ^ (bits - 1)) \<le> k \<and> k < 2 ^ (bits - 1)"

text \<open>
  The tables of the embedding are lists of rows with integer keys of any size, so that the
  engine never runs out of keys. A key that the meal table holds is a key the engine
  assigned and stored, hence one that fits the column: such a key is bound whatever its
  size, and any other key is bound when it is in the range of the type.
\<close>

definition bind_key :: "nat \<Rightarrow> ('c, 'k) database \<Rightarrow> int \<Rightarrow> bool" where
  "bind_key bits db k \<longleftrightarrow>
     sql_integer bits k \<or> k \<in> MealSchema.id' ` set (meal_table db)"

text \<open>
  The primary key that the engine assigns to an inserted meal row: an autoincrement key,
  larger than every key in the table.
\<close>

definition autoincrement :: "int list \<Rightarrow> int" where
  "autoincrement ids = fold max ids 0 + 1"

subsection \<open>The operations\<close>

text \<open>\<^verbatim>\<open>_get_schema_by_code\<close> (lines 19 to 41).\<close>

definition get_schema_by_code ::
  "('c, 'k) database \<Rightarrow> string \<Rightarrow> string \<Rightarrow> date
     \<Rightarrow> (error + ('c, 'k) MealSchema list) \<times> ('c, 'k) database" where
  "get_schema_by_code db0 eoc ssc d =
     session_begin (\<lambda>db.
       (let result = filter (where_code eoc ssc) (school_info_table db)
        in (Inr (concat (map (\<lambda>school_info. selectinload_meals db d school_info) result)), db)))
     db0"

text \<open>\<^verbatim>\<open>get_by_code\<close> (lines 43 to 50).\<close>

definition get_by_code ::
  "('c, 'k) database \<Rightarrow> string \<Rightarrow> string \<Rightarrow> date
     \<Rightarrow> (error + ('c, 'k) Meal list) \<times> ('c, 'k) database" where
  "get_by_code db0 eoc ssc d =
     (case get_schema_by_code db0 eoc ssc d of
        (Inl e, db) \<Rightarrow> (Inl e, db)
      | (Inr meal_schemas, db) \<Rightarrow> (Inr (map to_entity meal_schemas), db))"

text \<open>
  \<^verbatim>\<open>get_by_id\<close> (lines 52 to 59). \<^verbatim>\<open>meal_id\<close> is a Python \<^verbatim>\<open>int\<close>, of any size;
  executing the select binds it to the key column, which raises when it does not fit.
\<close>

definition get_by_id ::
  "nat \<Rightarrow> ('c, 'k) database \<Rightarrow> int
     \<Rightarrow> (error + ('c, 'k) Meal option) \<times> ('c, 'k) database" where
  "get_by_id bits db0 meal_id =
     session_begin (\<lambda>db.
       if \<not> bind_key bits db meal_id then (Inl DBAPIError, db)
       else
         (case scalar_one_or_none
                 (filter (\<lambda>meal. MealSchema.id' meal = meal_id) (meal_table db)) of
            Inl e \<Rightarrow> (Inl e, db)
          | Inr meal_schema \<Rightarrow>
              (Inr (case meal_schema of Some schema \<Rightarrow> Some (to_entity schema) | None \<Rightarrow> None),
               db)))
     db0"

text \<open>\<^verbatim>\<open>get_with_id_by_code\<close> (lines 61 to 68).\<close>

definition get_with_id_by_code ::
  "('c, 'k) database \<Rightarrow> string \<Rightarrow> string \<Rightarrow> date
     \<Rightarrow> (error + (int \<times> ('c, 'k) Meal) list) \<times> ('c, 'k) database" where
  "get_with_id_by_code db0 eoc ssc d =
     (case get_schema_by_code db0 eoc ssc d of
        (Inl e, db) \<Rightarrow> (Inl e, db)
      | (Inr meal_schemas, db) \<Rightarrow>
          (Inr (map (\<lambda>schema. (MealSchema.id' schema, to_entity schema)) meal_schemas), db))"

text \<open>\<^verbatim>\<open>get_id_by_code\<close> (lines 70 to 95).\<close>

definition get_id_by_code ::
  "('c, 'k) database \<Rightarrow> string \<Rightarrow> string \<Rightarrow> date \<Rightarrow> meal_name
     \<Rightarrow> (error + int option) \<times> ('c, 'k) database" where
  "get_id_by_code db0 eoc ssc d meal_name =
     session_begin (\<lambda>db.
       (case scalar_subquery
               (map SchoolInfoSchema.id' (filter (where_code eoc ssc) (school_info_table db))) of
          Inl e \<Rightarrow> (Inl e, db)
        | Inr school_info_subquery \<Rightarrow>
            (case scalar_one_or_none
                    (map MealSchema.id'
                       (filter (\<lambda>meal. Some (school_info_id meal) = school_info_subquery
                                  \<and> MealSchema.date meal = d
                                  \<and> MealSchema.name meal = meal_name)
                          (meal_table db))) of
               Inl e \<Rightarrow> (Inl e, db)
             | Inr r \<Rightarrow> (Inr r, db))))
     db0"

text \<open>
  \<^verbatim>\<open>create_by_code\<close> (lines 97 to 127). The result type \<^verbatim>\<open>CreateMealStatus | int\<close> is a
  sum. \<^verbatim>\<open>session.add\<close> followed by \<^verbatim>\<open>session.commit\<close> appends the new row to the meal
  table; the row's \<^verbatim>\<open>id\<close> is the key the engine assigns at that point, and it is the
  value returned.
\<close>

definition create_by_code ::
  "('c, 'k) database \<Rightarrow> string \<Rightarrow> string \<Rightarrow> ('c, 'k) Meal
     \<Rightarrow> (error + (CreateMealStatus + int)) \<times> ('c, 'k) database" where
  "create_by_code db0 eoc ssc meal =
     session_begin (\<lambda>db.
       (case scalar_one_or_none
               (map SchoolInfoSchema.id' (filter (where_code eoc ssc) (school_info_table db))) of
          Inl e \<Rightarrow> (Inl e, db)
        | Inr None \<Rightarrow> (Inr (Inl SCHOOL_INFO_NOT_FOUND), db)
        | Inr (Some school_id) \<Rightarrow>
            (let meal_schema =
                   \<lparr>MealSchema.id' = autoincrement (map MealSchema.id' (meal_table db)),
                    school_info_id = school_id,
                    name = Meal.name meal,
                    dish_name = Meal.dish_name meal,
                    calorie = Meal.calorie meal,
                    date = Meal.date meal,
                    comments = []\<rparr>
             in (Inr (Inr (MealSchema.id' meal_schema)),
                 db\<lparr>meal_table := meal_table db @ [meal_schema]\<rparr>))))
     db0"

subsection \<open>The rows a meal slot stands for\<close>

text \<open>
  The meal rows that match a school, a date and a meal name, in the words of the data model:
  the rows whose parent school-info row has the code pair, whose date is the date and whose
  name is the name. This is independent of how \<open>get_id_by_code\<close> finds them; the
  properties below compare the two.
\<close>

definition matching_meals ::
  "('c, 'k) database \<Rightarrow> string \<Rightarrow> string \<Rightarrow> date \<Rightarrow> meal_name \<Rightarrow> ('c, 'k) MealSchema list" where
  "matching_meals db eoc ssc d meal_name =
     filter (\<lambda>meal.
        list_ex (\<lambda>school_info. where_code eoc ssc school_info
                   \<and> school_info_id meal = SchoolInfoSchema.id' school_info)
          (school_info_table db)
        \<and> MealSchema.date meal = d
        \<and> MealSchema.name meal = meal_name)
       (meal_table db)"

subsection \<open>Example stores\<close>

text \<open>One school, known by the code pair \<open>(''B10'', ''7010569'')\<close>, and no meal yet.\<close>

definition one_school :: "(int, string) database" where
  "one_school =
     \<lparr>school_info_table =
        [\<lparr>SchoolInfoSchema.id' = 1, edu_office_code = ''B10'', standard_school_code = ''7010569''\<rparr>],
      meal_table = []\<rparr>"

definition bibimbap :: "(int, string) Meal" where
  "bibimbap =
     \<lparr>Meal.name = Lunch, dish_name = ''bibimbap'', calorie = 650, date = Date 2024 3 4,
      comments = [''good'']\<rparr>"

text \<open>The row that \<open>create_by_code\<close> stores for \<open>bibimbap\<close> under the key \<open>k\<close>.\<close>

definition bibimbap_row :: "int \<Rightarrow> (int, string) MealSchema" where
  "bibimbap_row k =
     \<lparr>MealSchema.id' = k, school_info_id = 1, name = Lunch, dish_name = ''bibimbap'',
      calorie = 650, date = Date 2024 3 4, comments = []\<rparr>"

text \<open>
  The store after \<open>bibimbap\<close> was created once for the school, and after it was created
  a second time.
\<close>

definition one_meal :: "(int, string) database" where
  "one_meal = one_school\<lparr>meal_table := [bibimbap_row 1]\<rparr>"

definition two_meals :: "(int, string) database" where
  "two_meals = one_school\<lparr>meal_table := [bibimbap_row 1, bibimbap_row 2]\<rparr>"

text \<open>
  A store in which two school-info rows carry the same code pair. Each has one meal on
  the same day: lunch at the first, dinner at the second.
\<close>

definition bulgogi_row :: "(int, string) MealSchema" where
  "bulgogi_row =
     \<lparr>MealSchema.id' = 2, school_info_id = 2, name = Dinner, dish_name = ''bulgogi'',
      calorie = 700, date = Date 2024 3 4, comments = []\<rparr>"

definition twin_schools :: "(int, string) database" where
  "twin_schools =
     \<lparr>school_info_table =
        [\<lparr>SchoolInfoSchema.id' = 1, edu_office_code = ''B10'', standard_school_code = ''7010569''\<rparr>,
         \<lparr>SchoolInfoSchema.id' = 2, edu_office_code = ''B10'', standard_school_code = ''7010569''\<rparr>],
      meal_table = [bibimbap_row 1, bulgogi_row]\<rparr>"

section \<open>Properties\<close>

subsection \<open>Auxiliary facts\<close>

lemma le_fold_max: "(a::int) \<le> fold max ids a"
proof (induction ids arbitrary: a)
  case Nil
  then show ?case by simp
next
  case (Cons i ids)
  have "a \<le> max i a" by simp
  also have "\<dots> \<le> fold max ids (max i a)" by (rule Cons.IH)
  finally show ?case by simp
qed

lemma member_le_fold_max: "k \<in> set ids \<Longrightarrow> (k::int) \<le> fold max ids a"
proof (induction ids arbitrary: a)
  case Nil
  then show ?case by simp
next
  case (Cons i ids)
  show ?case
  proof (cases "k = i")
    case True
    have "k \<le> max i a" using True by simp
    also have "\<dots> \<le> fold max ids (max i a)" by (rule le_fold_max)
    finally show ?thesis by simp
  next
    case False
    with Cons.prems have "k \<in> set ids" by simp
    then show ?thesis using Cons.IH by simp
  qed
qed

lemma autoincrement_fresh: "k \<in> set ids \<Longrightarrow> k < autoincrement ids"
  using member_le_fold_max [of k ids 0] by (simp add: autoincrement_def)

lemma autoincrement_not_member: "autoincrement ids \<notin> set ids"
  using autoincrement_fresh [of "autoincrement ids" ids] by auto

lemma filter_absent_id:
  "meal_id \<notin> MealSchema.id' ` set rows \<Longrightarrow>
   filter (\<lambda>meal. MealSchema.id' meal = meal_id) rows = []"
  by (induction rows) auto

lemma filter_fresh_id:
  assumes "new_id \<notin> MealSchema.id' ` set rows" and "MealSchema.id' row = new_id"
  shows "filter (\<lambda>meal. MealSchema.id' meal = new_id) (rows @ [row]) = [row]"
proof -
  have "filter (\<lambda>meal. MealSchema.id' meal = new_id) rows = []"
    using assms(1) by (induction rows) auto
  then show ?thesis using assms(2) by simp
qed

text \<open>What \<open>create_by_code\<close> does, by the number of school-info rows with the code pair.\<close>

lemma create_by_code_cases:
  "create_by_code db eoc ssc meal =
     (case filter (where_code eoc ssc) (school_info_table db) of
        [] \<Rightarrow> (Inr (Inl SCHOOL_INFO_NOT_FOUND), db)
      | [school_info] \<Rightarrow>
          (Inr (Inr (autoincrement (map MealSchema.id' (meal_table db)))),
           db\<lparr>meal_table := meal_table db @
                [\<lparr>MealSchema.id' = autoincrement (map MealSchema.id' (meal_table db)),
                  school_info_id = SchoolInfoSchema.id' school_info,
                  name = Meal.name meal,
                  dish_name = Meal.dish_name meal,
                  calorie = Meal.calorie meal,
                  date = Meal.date meal,
                  comments = []\<rparr>]\<rparr>)
      | _ \<Rightarrow> (Inl MultipleResultsFound, db))"
proof (cases "filter (where_code eoc ssc) (school_info_table db)" rule: scalar_one_or_none.cases)
  case 1
  then show ?thesis by (simp add: create_by_code_def session_begin_def)
next
  case (2 x)
  then show ?thesis by (simp add: create_by_code_def session_begin_def Let_def)
next
  case (3 x y rows)
  then show ?thesis by (simp add: create_by_code_def session_begin_def)
qed

lemma create_by_code_one:
  assumes "filter (where_code eoc ssc) (school_info_table db) = [school_info]"
  shows "create_by_code db eoc ssc meal =
          (Inr (Inr (autoincrement (map MealSchema.id' (meal_table db)))),
           db\<lparr>meal_table := meal_table db @
                [\<lparr>MealSchema.id' = autoincrement (map MealSchema.id' (meal_table db)),
                  school_info_id = SchoolInfoSchema.id' school_info,
                  name = Meal.name meal,
                  dish_name = Meal.dish_name meal,
                  calorie = Meal.calorie meal,
                  date = Meal.date meal,
                  comments = []\<rparr>]\<rparr>)"
  unfolding create_by_code_cases assms by simp

lemma create_by_code_id:
  assumes "create_by_code db eoc ssc meal = (Inr (Inr new_id), db')"
  obtains school_info where
      "filter (where_code eoc ssc) (school_info_table db) = [school_info]"
    and "new_id = autoincrement (map MealSchema.id' (meal_table db))"
    and "db' = db\<lparr>meal_table := meal_table db @
                [\<lparr>MealSchema.id' = new_id,
                  school_info_id = SchoolInfoSchema.id' school_info,
                  name = Meal.name meal,
                  dish_name = Meal.dish_name meal,
                  calorie = Meal.calorie meal,
                  date = Meal.date meal,
                  comments = []\<rparr>]\<rparr>"
proof (cases "filter (where_code eoc ssc) (school_info_table db)" rule: scalar_one_or_none.cases)
  case 1
  then have "create_by_code db eoc ssc meal = (Inr (Inl SCHOOL_INFO_NOT_FOUND), db)"
    by (simp add: create_by_code_cases)
  with assms show ?thesis by simp
next
  case (2 school_info)
  from create_by_code_one [OF 2, of meal] assms
  have "new_id = autoincrement (map MealSchema.id' (meal_table db))"
    and "db' = db\<lparr>meal_table := meal_table db @
                [\<lparr>MealSchema.id' = autoincrement (map MealSchema.id' (meal_table db)),
                  school_info_id = SchoolInfoSchema.id' school_info,
                  name = Meal.name meal,
                  dish_name = Meal.dish_name meal,
                  calorie = Meal.calorie meal,
                  date = Meal.date meal,
                  comments = []\<rparr>]\<rparr>"
    by simp_all
  with 2 show ?thesis by (intro that [of school_info]) simp_all
next
  case (3 x y rows)
  then have "create_by_code db eoc ssc meal = (Inl MultipleResultsFound, db)"
    by (simp add: create_by_code_cases)
  with assms show ?thesis by simp
qed

text \<open>The queries of the read operations, with the transaction unfolded.\<close>

lemma get_schema_by_code_eq:
  "get_schema_by_code db eoc ssc d =
     (Inr (concat (map (selectinload_meals db d)
                     (filter (where_code eoc ssc) (school_info_table db)))), db)"
  by (simp add: get_schema_by_code_def session_begin_def)

lemma get_by_code_eq:
  "get_by_code db eoc ssc d =
     (Inr (map to_entity
            (concat (map (selectinload_meals db d)
                       (filter (where_code eoc ssc) (school_info_table db))))), db)"
  by (simp add: get_by_code_def get_schema_by_code_eq)

lemma get_with_id_by_code_eq:
  "get_with_id_by_code db eoc ssc d =
     (Inr (map (\<lambda>schema. (MealSchema.id' schema, to_entity schema))
            (concat (map (selectinload_meals db d)
                       (filter (where_code eoc ssc) (school_info_table db))))), db)"
  by (simp add: get_with_id_by_code_def get_schema_by_code_eq)

text \<open>
  With at most one school-info row for the code pair, the rows that \<open>get_id_by_code\<close>
  selects are the ids of \<open>matching_meals\<close>.
\<close>

lemma list_ex_conj_filter:
  "list_ex (\<lambda>x. P x \<and> Q x) xs = list_ex Q (filter P xs)"
  by (induction xs) auto

lemma matching_meals_no_school:
  assumes "filter (where_code eoc ssc) (school_info_table db) = []"
  shows "matching_meals db eoc ssc d n = []"
  by (simp add: matching_meals_def list_ex_conj_filter assms)

lemma matching_meals_one_school:
  assumes "filter (where_code eoc ssc) (school_info_table db) = [school_info]"
  shows "matching_meals db eoc ssc d n =
           filter (\<lambda>meal. school_info_id meal = SchoolInfoSchema.id' school_info
                      \<and> MealSchema.date meal = d \<and> MealSchema.name meal = n)
             (meal_table db)"
  by (simp add: matching_meals_def list_ex_conj_filter assms)

lemma at_most_one_cases:
  assumes "length xs \<le> 1"
  obtains "xs = []" | x where "xs = [x]"
  using assms by (cases xs rule: scalar_one_or_none.cases) simp_all

lemma get_id_by_code_rows:
  assumes "length (filter (where_code eoc ssc) (school_info_table db)) \<le> 1"
  shows "get_id_by_code db eoc ssc d n =
           (case scalar_one_or_none (map MealSchema.id' (matching_meals db eoc ssc d n)) of
              Inl e \<Rightarrow> (Inl e, db)
            | Inr r \<Rightarrow> (Inr r, db))"
  using assms
proof (cases rule: at_most_one_cases)
  case 1
  then show ?thesis
    by (simp add: get_id_by_code_def session_begin_def matching_meals_no_school)
next
  case (2 school_info)
  then show ?thesis
    by (simp add: get_id_by_code_def session_begin_def matching_meals_one_school
        split: sum.splits)
qed

lemma named_entries:
  assumes "length (filter (where_code eoc ssc) (school_info_table db)) \<le> 1"
      and "get_with_id_by_code db eoc ssc d = (Inr entries, db')"
  shows "filter (\<lambda>(i, entity). Meal.name entity = n) entries =
           map (\<lambda>schema. (MealSchema.id' schema, to_entity schema))
             (matching_meals db eoc ssc d n)"
  using assms(1)
proof (cases rule: at_most_one_cases)
  case 1
  with assms(2) have "entries = []" by (simp add: get_with_id_by_code_eq)
  with 1 show ?thesis by (simp add: matching_meals_no_school)
next
  case (2 school_info)
  with assms(2) have
    "entries = map (\<lambda>schema. (MealSchema.id' schema, to_entity schema))
                 (selectinload_meals db d school_info)"
    by (auto simp: get_with_id_by_code_eq)
  moreover have "Meal.name (to_entity schema) = MealSchema.name schema"
    for schema :: "('a, 'b) MealSchema"
    by (simp add: to_entity_def)
  ultimately show ?thesis
    by (simp add: matching_meals_one_school [OF 2] selectinload_meals_def filter_map o_def
        conj_ac)
qed

text \<open>Evaluating the example stores.\<close>

lemmas example_defs =
  one_school_def one_meal_def two_meals_def twin_schools_def bibimbap_def bibimbap_row_def
  bulgogi_row_def where_code_def

lemma matching_two_meals:
  "matching_meals two_meals ''B10'' ''7010569'' (Date 2024 3 4) Lunch
     = [bibimbap_row 1, bibimbap_row 2]"
  by (simp add: matching_meals_def example_defs)

lemma matching_twin_schools:
  "matching_meals twin_schools ''B10'' ''7010569'' (Date 2024 3 4) Dinner = [bulgogi_row]"
  by (simp add: matching_meals_def example_defs)

lemma entries_twin_schools:
  "get_with_id_by_code twin_schools ''B10'' ''7010569'' (Date 2024 3 4)
     = (Inr [(1, to_entity (bibimbap_row 1)), (2, to_entity bulgogi_row)], twin_schools)"
  by (simp add: get_with_id_by_code_eq selectinload_meals_def example_defs)

lemma get_id_twin_schools:
  "get_id_by_code twin_schools ''B10'' ''7010569'' (Date 2024 3 4) Dinner
     = (Inl DBAPIError, twin_schools)"
  by (simp add: get_id_by_code_def session_begin_def example_defs)

lemma entries_one_meal:
  "get_with_id_by_code one_meal ''B10'' ''7010569'' (Date 2024 3 4)
     = (Inr [(1, to_entity (bibimbap_row 1))], one_meal)"
  by (simp add: get_with_id_by_code_eq selectinload_meals_def example_defs)

lemma entries_two_meals:
  "get_with_id_by_code two_meals ''B10'' ''7010569'' (Date 2024 3 4)
     = (Inr [(1, to_entity (bibimbap_row 1)), (2, to_entity (bibimbap_row 2))], two_meals)"
  by (simp add: get_with_id_by_code_eq selectinload_meals_def example_defs)

text \<open>The two calls that build the example stores.\<close>

lemma create_in_one_school:
  "create_by_code one_school ''B10'' ''7010569'' bibimbap = (Inr (Inr 1), one_meal)"
  by (simp add: create_by_code_cases one_school_def one_meal_def bibimbap_def bibimbap_row_def
      where_code_def autoincrement_def)

lemma create_in_one_meal:
  "create_by_code one_meal ''B10'' ''7010569'' bibimbap = (Inr (Inr 2), two_meals)"
  by (simp add: create_by_code_cases one_school_def one_meal_def two_meals_def bibimbap_def
      bibimbap_row_def where_code_def autoincrement_def)

subsection \<open>Creating a meal\<close>

text \<open>
  C1. When no school-info row has the code pair (the select on the two codes returns no
  row), \<open>create_by_code\<close> returns the value \<open>SCHOOL_INFO_NOT_FOUND\<close>, not an exception, and
  the store afterwards is the store before: no meal row was built or stored.
\<close>

theorem create_by_code_school_info_not_found:
  assumes "filter (where_code eoc ssc) (school_info_table db) = []"
  shows "create_by_code db eoc ssc meal = (Inr (Inl SCHOOL_INFO_NOT_FOUND), db)"
  using assms by (simp add: create_by_code_def session_begin_def)

theorem create_by_code_school_info_not_found_witness:
  "filter (where_code ''B10'' ''0000000'') (school_info_table one_school) = []
   \<and> create_by_code one_school ''B10'' ''0000000'' bibimbap =
       (Inr (Inl SCHOOL_INFO_NOT_FOUND), one_school)"
proof -
  have h: "filter (where_code ''B10'' ''0000000'') (school_info_table one_school) = []"
    by (simp add: one_school_def where_code_def)
  from h create_by_code_school_info_not_found [OF h, of bibimbap]
  show ?thesis by (rule conjI)
qed

text \<open>
  C2. When exactly one school-info row has the code pair, \<open>create_by_code\<close> returns an
  integer id and the committed store is the old store with one meal row appended: the
  school-info table and the earlier meal rows are as before. The id returned is the new
  row's, and no earlier meal row has it.
\<close>

theorem create_by_code_persists_one_row:
  assumes "length (filter (where_code eoc ssc) (school_info_table db)) = 1"
  shows "\<exists>new_id row.
           create_by_code db eoc ssc meal =
             (Inr (Inr new_id), db\<lparr>meal_table := meal_table db @ [row]\<rparr>)
         \<and> MealSchema.id' row = new_id
         \<and> new_id \<notin> MealSchema.id' ` set (meal_table db)"
proof -
  from assms obtain school_info where
    one: "filter (where_code eoc ssc) (school_info_table db) = [school_info]"
    by (cases "filter (where_code eoc ssc) (school_info_table db)" rule: scalar_one_or_none.cases)
      simp_all
  let ?k = "autoincrement (map MealSchema.id' (meal_table db))"
  let ?row = "\<lparr>MealSchema.id' = ?k,
                  school_info_id = SchoolInfoSchema.id' school_info,
                  name = Meal.name meal,
                  dish_name = Meal.dish_name meal,
                  calorie = Meal.calorie meal,
                  date = Meal.date meal,
                  comments = []\<rparr>"
  have "create_by_code db eoc ssc meal =
          (Inr (Inr ?k), db\<lparr>meal_table := meal_table db @ [?row]\<rparr>)"
    by (rule create_by_code_one [OF one])
  moreover have "MealSchema.id' ?row = ?k" by simp
  moreover have "?k \<notin> MealSchema.id' ` set (meal_table db)"
    using autoincrement_not_member [of "map MealSchema.id' (meal_table db)"] by simp
  ultimately show ?thesis by blast
qed

theorem create_by_code_persists_one_row_witness:
  "length (filter (where_code ''B10'' ''7010569'') (school_info_table one_school)) = 1
   \<and> (\<exists>new_id row.
          create_by_code one_school ''B10'' ''7010569'' bibimbap =
            (Inr (Inr new_id), one_school\<lparr>meal_table := meal_table one_school @ [row]\<rparr>)
        \<and> MealSchema.id' row = new_id
        \<and> new_id \<notin> MealSchema.id' ` set (meal_table one_school))"
proof -
  have h: "length (filter (where_code ''B10'' ''7010569'') (school_info_table one_school)) = 1"
    by (simp add: one_school_def where_code_def)
  from h create_by_code_persists_one_row [OF h, of bibimbap]
  show ?thesis by (rule conjI)
qed

text \<open>
  C3. Round trip: when \<open>create_by_code\<close> returns an integer id, \<open>get_by_id\<close> with that id on
  the store it left returns an entity, and the entity's name, dish name, calorie and date
  are those of the meal that was given. The id and the comments are not compared. The id
  is the key of the row just stored, so it is bound whatever the width of the column.
\<close>

theorem create_by_code_get_by_id_roundtrip:
  fixes db :: "('c, 'k) database"
  assumes "create_by_code db eoc ssc meal = (Inr (Inr new_id), db')"
  shows "\<exists>entity. get_by_id bits db' new_id = (Inr (Some entity), db')
           \<and> Meal.name entity = Meal.name meal
           \<and> Meal.dish_name entity = Meal.dish_name meal
           \<and> Meal.calorie entity = Meal.calorie meal
           \<and> Meal.date entity = Meal.date meal"
proof -
  from assms obtain school_info where
    "filter (where_code eoc ssc) (school_info_table db) = [school_info]" and
    new_id: "new_id = autoincrement (map MealSchema.id' (meal_table db))" and
    db': "db' = db\<lparr>meal_table := meal_table db @
                [\<lparr>MealSchema.id' = new_id,
                  school_info_id = SchoolInfoSchema.id' school_info,
                  name = Meal.name meal,
                  dish_name = Meal.dish_name meal,
                  calorie = Meal.calorie meal,
                  date = Meal.date meal,
                  comments = []\<rparr>]\<rparr>"
    by (rule create_by_code_id)
  define row :: "('c, 'k) MealSchema" where "row = \<lparr>MealSchema.id' = new_id,
                  school_info_id = SchoolInfoSchema.id' school_info,
                  name = Meal.name meal,
                  dish_name = Meal.dish_name meal,
                  calorie = Meal.calorie meal,
                  date = Meal.date meal,
                  comments = []\<rparr>"
  have table: "meal_table db' = meal_table db @ [row]"
    by (simp add: db' row_def)
  have fresh: "new_id \<notin> MealSchema.id' ` set (meal_table db)"
    using autoincrement_not_member [of "map MealSchema.id' (meal_table db)"] new_id by simp
  have key: "MealSchema.id' row = new_id" by (simp add: row_def)
  have "filter (\<lambda>meal. MealSchema.id' meal = new_id) (meal_table db') = [row]"
    unfolding table by (rule filter_fresh_id [OF fresh key])
  moreover have "bind_key bits db' new_id"
    by (simp add: bind_key_def table key)
  ultimately have "get_by_id bits db' new_id = (Inr (Some (to_entity row)), db')"
    by (simp add: get_by_id_def session_begin_def)
  moreover have "Meal.name (to_entity row) = Meal.name meal"
    and "Meal.dish_name (to_entity row) = Meal.dish_name meal"
    and "Meal.calorie (to_entity row) = Meal.calorie meal"
    and "Meal.date (to_entity row) = Meal.date meal"
    by (simp_all add: row_def to_entity_def)
  ultimately show ?thesis by blast
qed

theorem create_by_code_get_by_id_roundtrip_witness:
  "create_by_code one_school ''B10'' ''7010569'' bibimbap = (Inr (Inr 1), one_meal)
   \<and> (\<exists>entity. get_by_id 64 one_meal 1 = (Inr (Some entity), one_meal)
          \<and> Meal.name entity = Meal.name bibimbap
          \<and> Meal.dish_name entity = Meal.dish_name bibimbap
          \<and> Meal.calorie entity = Meal.calorie bibimbap
          \<and> Meal.date entity = Meal.date bibimbap)"
  using create_in_one_school
    create_by_code_get_by_id_roundtrip [OF create_in_one_school, of 64]
  by (rule conjI)

text \<open>
  C7. The row stored by a successful \<open>create_by_code\<close> has no comments, whatever comments
  the given meal carries.
\<close>

theorem create_by_code_comments_empty:
  assumes "create_by_code db eoc ssc meal = (Inr (Inr new_id), db')"
  shows "\<exists>row. meal_table db' = meal_table db @ [row]
           \<and> MealSchema.id' row = new_id
           \<and> MealSchema.comments row = []"
proof -
  from assms obtain school_info where
    "filter (where_code eoc ssc) (school_info_table db) = [school_info]" and
    "new_id = autoincrement (map MealSchema.id' (meal_table db))" and
    db': "db' = db\<lparr>meal_table := meal_table db @
                [\<lparr>MealSchema.id' = new_id,
                  school_info_id = SchoolInfoSchema.id' school_info,
                  name = Meal.name meal,
                  dish_name = Meal.dish_name meal,
                  calorie = Meal.calorie meal,
                  date = Meal.date meal,
                  comments = []\<rparr>]\<rparr>"
    by (rule create_by_code_id)
  show ?thesis
    by (rule exI [of _ "\<lparr>MealSchema.id' = new_id,
                  school_info_id = SchoolInfoSchema.id' school_info,
                  name = Meal.name meal,
                  dish_name = Meal.dish_name meal,
                  calorie = Meal.calorie meal,
                  date = Meal.date meal,
                  comments = []\<rparr>"]) (simp add: db')
qed

theorem create_by_code_comments_empty_witness:
  "Meal.comments bibimbap = [''good'']
   \<and> create_by_code one_school ''B10'' ''7010569'' bibimbap = (Inr (Inr 1), one_meal)
   \<and> (\<exists>row. meal_table one_meal = meal_table one_school @ [row]
          \<and> MealSchema.id' row = 1
          \<and> MealSchema.comments row = [])"
proof -
  have "Meal.comments bibimbap = [''good'']" by (simp add: bibimbap_def)
  then show ?thesis
    using create_in_one_school create_by_code_comments_empty [OF create_in_one_school]
    by (intro conjI)
qed

text \<open>
  C10. When more than one school-info row has the code pair, \<open>create_by_code\<close> raises
  \<open>MultipleResultsFound\<close> (from \<open>scalar_one_or_none\<close>) and the store is as before, whereas
  \<open>get_by_code\<close> with the same pair returns, for the date asked, the meals of every matching
  school-info row, one row's meals after the other's.
\<close>

theorem create_by_code_multiple_school_info:
  assumes "1 < length (filter (where_code eoc ssc) (school_info_table db))"
  shows "create_by_code db eoc ssc meal = (Inl MultipleResultsFound, db)
       \<and> get_by_code db eoc ssc d =
           (Inr (map to_entity
                  (concat (map (\<lambda>school_info.
                              filter (\<lambda>meal. school_info_id meal = SchoolInfoSchema.id' school_info
                                              \<and> MealSchema.date meal = d) (meal_table db))
                            (filter (where_code eoc ssc) (school_info_table db))))), db)"
proof
  from assms obtain x y rest where
    "filter (where_code eoc ssc) (school_info_table db) = x # y # rest"
    by (cases "filter (where_code eoc ssc) (school_info_table db)" rule: scalar_one_or_none.cases)
      simp_all
  then show "create_by_code db eoc ssc meal = (Inl MultipleResultsFound, db)"
    by (simp add: create_by_code_cases)
next
  have "selectinload_meals db d =
          (\<lambda>school_info. filter (\<lambda>meal. school_info_id meal = SchoolInfoSchema.id' school_info
                                              \<and> MealSchema.date meal = d) (meal_table db))"
    by (rule ext) (simp add: selectinload_meals_def)
  then show "get_by_code db eoc ssc d =
           (Inr (map to_entity
                  (concat (map (\<lambda>school_info.
                              filter (\<lambda>meal. school_info_id meal = SchoolInfoSchema.id' school_info
                                              \<and> MealSchema.date meal = d) (meal_table db))
                            (filter (where_code eoc ssc) (school_info_table db))))), db)"
    by (simp only: get_by_code_eq)
qed

theorem create_by_code_multiple_school_info_witness:
  "1 < length (filter (where_code ''B10'' ''7010569'') (school_info_table twin_schools))
   \<and> create_by_code twin_schools ''B10'' ''7010569'' bibimbap
       = (Inl MultipleResultsFound, twin_schools)
   \<and> get_by_code twin_schools ''B10'' ''7010569'' (Date 2024 3 4)
       = (Inr [to_entity (bibimbap_row 1),
               to_entity (bulgogi_row)],
          twin_schools)"
proof -
  have h: "1 < length (filter (where_code ''B10'' ''7010569'') (school_info_table twin_schools))"
    by (simp add: example_defs)
  have "concat (map (\<lambda>school_info.
                 filter (\<lambda>meal. school_info_id meal = SchoolInfoSchema.id' school_info
                                 \<and> MealSchema.date meal = Date 2024 3 4) (meal_table twin_schools))
               (filter (where_code ''B10'' ''7010569'') (school_info_table twin_schools)))
        = [bibimbap_row 1, bulgogi_row]"
    by (simp add: example_defs)
  with h create_by_code_multiple_school_info [OF h, of bibimbap "Date 2024 3 4"] show ?thesis by simp
qed

subsection \<open>Reading\<close>

text \<open>
  C5. When some school-info row has the code pair and no meal row of a school with that
  pair has the date, \<open>get_by_code\<close> returns the empty list, as a value.
\<close>

theorem get_by_code_empty:
  assumes "filter (where_code eoc ssc) (school_info_table db) \<noteq> []"
      and "\<forall>school_info \<in> set (school_info_table db). \<forall>meal \<in> set (meal_table db).
             where_code eoc ssc school_info
               \<and> school_info_id meal = SchoolInfoSchema.id' school_info
             \<longrightarrow> MealSchema.date meal \<noteq> d"
  shows "get_by_code db eoc ssc d = (Inr [], db)"
proof -
  have "selectinload_meals db d school_info = []"
    if "school_info \<in> set (filter (where_code eoc ssc) (school_info_table db))"
    for school_info
  proof -
    from that have si: "school_info \<in> set (school_info_table db)"
      and code: "where_code eoc ssc school_info" by simp_all
    have "\<not> (school_info_id meal = SchoolInfoSchema.id' school_info \<and> MealSchema.date meal = d)"
      if "meal \<in> set (meal_table db)" for meal
      using assms(2) si code that by blast
    then show ?thesis
      unfolding selectinload_meals_def filter_empty_conv by blast
  qed
  then have "concat (map (selectinload_meals db d)
                       (filter (where_code eoc ssc) (school_info_table db))) = []"
    by simp
  then show ?thesis by (simp add: get_by_code_eq)
qed

theorem get_by_code_empty_witness:
  "filter (where_code ''B10'' ''7010569'') (school_info_table one_meal) \<noteq> []
   \<and> get_by_code one_meal ''B10'' ''7010569'' (Date 2024 3 5) = (Inr [], one_meal)"
proof -
  have h1: "filter (where_code ''B10'' ''7010569'') (school_info_table one_meal) \<noteq> []"
    by (simp add: example_defs)
  have h2: "\<forall>school_info \<in> set (school_info_table one_meal). \<forall>meal \<in> set (meal_table one_meal).
             where_code ''B10'' ''7010569'' school_info
               \<and> school_info_id meal = SchoolInfoSchema.id' school_info
             \<longrightarrow> MealSchema.date meal \<noteq> Date 2024 3 5"
    by (simp add: example_defs)
  from h1 get_by_code_empty [OF h1 h2] show ?thesis by (rule conjI)
qed

text \<open>
  C6 as stated fails for a key that does not fit the key column. With a 64-bit column no
  meal row has the key \<open>2 ^ 63\<close>, and \<open>get_by_id\<close> with that key does not return \<open>None\<close>:
  binding the key raises.
\<close>

theorem get_by_id_absent_counterexample:
  "(2 ^ 63 :: int) \<notin> MealSchema.id' ` set (meal_table one_meal)
   \<and> get_by_id 64 one_meal (2 ^ 63) = (Inl DBAPIError, one_meal)
   \<and> get_by_id 64 one_meal (2 ^ 63) \<noteq> (Inr None, one_meal)"
  by (simp add: get_by_id_def session_begin_def bind_key_def sql_integer_def example_defs)

text \<open>
  C6, amended. When \<open>meal_id\<close> is in the range of the key column's integer type and no meal
  row has the primary key \<open>meal_id\<close>, \<open>get_by_id\<close> returns \<open>None\<close>, as a value and not as an
  exception.
\<close>

theorem get_by_id_absent:
  assumes "sql_integer bits meal_id"
      and "meal_id \<notin> MealSchema.id' ` set (meal_table db)"
  shows "get_by_id bits db meal_id = (Inr None, db)"
  using assms(1) filter_absent_id [OF assms(2)]
  by (simp add: get_by_id_def session_begin_def bind_key_def)

theorem get_by_id_absent_witness:
  "sql_integer 64 5 \<and> sql_integer 64 (2 ^ 63 - 1) \<and> sql_integer 64 (- (2 ^ 63))
   \<and> sql_integer 32 (2 ^ 31 - 1)
   \<and> 5 \<notin> MealSchema.id' ` set (meal_table one_meal)
   \<and> get_by_id 64 one_meal 5 = (Inr None, one_meal)
   \<and> get_by_id 64 one_meal (2 ^ 63 - 1) = (Inr None, one_meal)
   \<and> get_by_id 64 one_meal (- (2 ^ 63)) = (Inr None, one_meal)
   \<and> get_by_id 32 one_meal (2 ^ 31 - 1) = (Inr None, one_meal)"
proof -
  have r: "sql_integer 64 5" "sql_integer 64 (2 ^ 63 - 1)" "sql_integer 64 (- (2 ^ 63))"
    "sql_integer 32 (2 ^ 31 - 1)"
    by (simp_all add: sql_integer_def)
  have h: "5 \<notin> MealSchema.id' ` set (meal_table one_meal)"
    "2 ^ 63 - 1 \<notin> MealSchema.id' ` set (meal_table one_meal)"
    "- (2 ^ 63) \<notin> MealSchema.id' ` set (meal_table one_meal)"
    "2 ^ 31 - 1 \<notin> MealSchema.id' ` set (meal_table one_meal)"
    by (simp_all add: example_defs)
  show ?thesis
    using r h(1)
      get_by_id_absent [OF r(1) h(1)] get_by_id_absent [OF r(2) h(2)]
      get_by_id_absent [OF r(3) h(3)] get_by_id_absent [OF r(4) h(4)]
    by (intro conjI)
qed

text \<open>
  C8. The four read operations return the store they were given, for every input and
  whatever they return or raise: they insert, update and delete nothing.
\<close>

theorem reads_leave_database_unchanged:
  "snd (get_by_code db eoc ssc d) = db
   \<and> snd (get_by_id bits db meal_id) = db
   \<and> snd (get_with_id_by_code db eoc ssc d) = db
   \<and> snd (get_id_by_code db eoc ssc d meal_name) = db"
  by (simp add: get_by_code_def get_by_id_def get_with_id_by_code_def get_id_by_code_def
      get_schema_by_code_def session_begin_def split: sum.splits prod.splits if_splits)


subsection \<open>Looking up the id of a meal slot\<close>

text \<open>
  C9 as stated fails for a code pair that two school-info rows carry. In \<open>twin_schools\<close>
  exactly one meal row matches the code pair, the date and the name \<open>Dinner\<close>: the row with
  the id 2, at the second school. \<open>get_id_by_code\<close> does not return that id: its scalar
  subquery has two rows, so the query fails.
\<close>

theorem get_id_by_code_row_count_counterexample:
  "length (filter (where_code ''B10'' ''7010569'') (school_info_table twin_schools)) = 2
   \<and> matching_meals twin_schools ''B10'' ''7010569'' (Date 2024 3 4) Dinner = [bulgogi_row]
   \<and> MealSchema.id' bulgogi_row = 2
   \<and> fst (get_id_by_code twin_schools ''B10'' ''7010569'' (Date 2024 3 4) Dinner)
       = Inl DBAPIError
   \<and> fst (get_id_by_code twin_schools ''B10'' ''7010569'' (Date 2024 3 4) Dinner)
       \<noteq> Inr (Some 2)"
proof -
  have "length (filter (where_code ''B10'' ''7010569'') (school_info_table twin_schools)) = 2"
    by (simp add: example_defs)
  moreover have "MealSchema.id' bulgogi_row = 2"
    by (simp add: bulgogi_row_def)
  ultimately show ?thesis
    by (simp add: matching_twin_schools get_id_twin_schools)
qed

text \<open>
  C9, amended. For a code pair that at most one school-info row carries,
  \<open>get_id_by_code\<close> goes by the number of meal rows that match the school, the date and the
  name: it raises \<open>MultipleResultsFound\<close> exactly when more than one row matches, returns
  \<open>None\<close> exactly when none does, and returns an id exactly when one row matches, the id of
  that row.
\<close>

theorem get_id_by_code_row_count:
  assumes "length (filter (where_code eoc ssc) (school_info_table db)) \<le> 1"
  shows "(fst (get_id_by_code db eoc ssc d n) = Inl MultipleResultsFound
            \<longleftrightarrow> 1 < length (matching_meals db eoc ssc d n))
       \<and> (fst (get_id_by_code db eoc ssc d n) = Inr None
            \<longleftrightarrow> matching_meals db eoc ssc d n = [])
       \<and> (fst (get_id_by_code db eoc ssc d n) = Inr (Some i)
            \<longleftrightarrow> map MealSchema.id' (matching_meals db eoc ssc d n) = [i])"
proof (cases "matching_meals db eoc ssc d n" rule: scalar_one_or_none.cases)
  case 1
  then show ?thesis by (simp add: get_id_by_code_rows [OF assms])
next
  case (2 meal)
  then show ?thesis by (simp add: get_id_by_code_rows [OF assms])
next
  case (3 meal meal' rows)
  then show ?thesis by (simp add: get_id_by_code_rows [OF assms])
qed

theorem get_id_by_code_row_count_witness:
  "length (filter (where_code ''B10'' ''7010569'') (school_info_table two_meals)) \<le> 1
   \<and> 1 < length (matching_meals two_meals ''B10'' ''7010569'' (Date 2024 3 4) Lunch)
   \<and> fst (get_id_by_code two_meals ''B10'' ''7010569'' (Date 2024 3 4) Lunch)
       = Inl MultipleResultsFound
   \<and> matching_meals two_meals ''B10'' ''7010569'' (Date 2024 3 4) Dinner = []
   \<and> fst (get_id_by_code two_meals ''B10'' ''7010569'' (Date 2024 3 4) Dinner) = Inr None
   \<and> map MealSchema.id' (matching_meals one_meal ''B10'' ''7010569'' (Date 2024 3 4) Lunch) = [1]
   \<and> fst (get_id_by_code one_meal ''B10'' ''7010569'' (Date 2024 3 4) Lunch) = Inr (Some 1)"
proof -
  have h2: "length (filter (where_code ''B10'' ''7010569'') (school_info_table two_meals)) \<le> 1"
    by (simp add: example_defs)
  have h1: "length (filter (where_code ''B10'' ''7010569'') (school_info_table one_meal)) \<le> 1"
    by (simp add: example_defs)
  have m2: "1 < length (matching_meals two_meals ''B10'' ''7010569'' (Date 2024 3 4) Lunch)"
    by (simp add: matching_two_meals)
  have m0: "matching_meals two_meals ''B10'' ''7010569'' (Date 2024 3 4) Dinner = []"
    by (simp add: matching_meals_def example_defs)
  have m1: "map MealSchema.id' (matching_meals one_meal ''B10'' ''7010569'' (Date 2024 3 4) Lunch) = [1]"
    by (simp add: matching_meals_def example_defs)
  show ?thesis
    using h2 m2 m0 m1
      get_id_by_code_row_count [OF h2, of "Date 2024 3 4" Lunch 1]
      get_id_by_code_row_count [OF h2, of "Date 2024 3 4" Dinner 1]
      get_id_by_code_row_count [OF h1, of "Date 2024 3 4" Lunch 1]
    by simp
qed

text \<open>
  C4 as stated fails, in two ways. After the same meal was created twice for one school,
  \<open>get_with_id_by_code\<close> has two entries named \<open>Lunch\<close>, with the ids 1 and 2, and
  \<open>get_id_by_code\<close> for \<open>Lunch\<close> raises \<open>MultipleResultsFound\<close>: it returns neither id.
  And in \<open>twin_schools\<close>, where two school-info rows carry the code pair,
  \<open>get_with_id_by_code\<close> has the entry of the dinner at the second row, with the id 2, and
  \<open>get_id_by_code\<close> for \<open>Dinner\<close> does not return 2.
\<close>

theorem get_id_by_code_agreement_counterexample:
  "create_by_code one_school ''B10'' ''7010569'' bibimbap = (Inr (Inr 1), one_meal)
   \<and> create_by_code one_meal ''B10'' ''7010569'' bibimbap = (Inr (Inr 2), two_meals)
   \<and> get_with_id_by_code two_meals ''B10'' ''7010569'' (Date 2024 3 4)
       = (Inr [(1, to_entity (bibimbap_row 1)), (2, to_entity (bibimbap_row 2))], two_meals)
   \<and> Meal.name (to_entity (bibimbap_row 1)) = Lunch
   \<and> Meal.name (to_entity (bibimbap_row 2)) = Lunch
   \<and> get_id_by_code two_meals ''B10'' ''7010569'' (Date 2024 3 4) Lunch
       = (Inl MultipleResultsFound, two_meals)
   \<and> get_id_by_code two_meals ''B10'' ''7010569'' (Date 2024 3 4) Lunch
       \<noteq> (Inr (Some 1), two_meals)
   \<and> get_with_id_by_code twin_schools ''B10'' ''7010569'' (Date 2024 3 4)
       = (Inr [(1, to_entity (bibimbap_row 1)), (2, to_entity bulgogi_row)], twin_schools)
   \<and> Meal.name (to_entity bulgogi_row) = Dinner
   \<and> get_id_by_code twin_schools ''B10'' ''7010569'' (Date 2024 3 4) Dinner
       \<noteq> (Inr (Some 2), twin_schools)"
proof -
  have "get_id_by_code two_meals ''B10'' ''7010569'' (Date 2024 3 4) Lunch
          = (Inl MultipleResultsFound, two_meals)"
    by (simp add: get_id_by_code_def session_begin_def example_defs)
  moreover have "Meal.name (to_entity (bibimbap_row 1)) = Lunch"
    and "Meal.name (to_entity (bibimbap_row 2)) = Lunch"
    and "Meal.name (to_entity bulgogi_row) = Dinner"
    by (simp_all add: to_entity_def bibimbap_row_def bulgogi_row_def)
  ultimately show ?thesis
    using create_in_one_school create_in_one_meal entries_two_meals entries_twin_schools
      get_id_twin_schools
    by simp
qed

text \<open>
  C4, amended. For a code pair that at most one school-info row carries: when exactly one
  entry of \<open>get_with_id_by_code\<close> has a meal of the given name, \<open>get_id_by_code\<close> with
  that name returns the id of that entry.
\<close>

theorem get_id_by_code_agrees_with_get_with_id_by_code:
  assumes "length (filter (where_code eoc ssc) (school_info_table db)) \<le> 1"
      and "get_with_id_by_code db eoc ssc d = (Inr entries, db')"
      and "filter (\<lambda>(i, entity). Meal.name entity = n) entries = [(i, entity)]"
  shows "get_id_by_code db eoc ssc d n = (Inr (Some i), db)"
proof -
  from named_entries [OF assms(1,2), of n] assms(3)
  have "map (\<lambda>schema. (MealSchema.id' schema, to_entity schema))
          (matching_meals db eoc ssc d n) = [(i, entity)]"
    by simp
  then have "map MealSchema.id' (matching_meals db eoc ssc d n) = [i]"
    by (cases "matching_meals db eoc ssc d n" rule: scalar_one_or_none.cases) simp_all
  then show ?thesis by (simp add: get_id_by_code_rows [OF assms(1)])
qed

theorem get_id_by_code_agrees_with_get_with_id_by_code_witness:
  "length (filter (where_code ''B10'' ''7010569'') (school_info_table one_meal)) \<le> 1
   \<and> get_with_id_by_code one_meal ''B10'' ''7010569'' (Date 2024 3 4)
       = (Inr [(1, to_entity (bibimbap_row 1))], one_meal)
   \<and> Meal.name (to_entity (bibimbap_row 1)) = Lunch
   \<and> get_id_by_code one_meal ''B10'' ''7010569'' (Date 2024 3 4) Lunch = (Inr (Some 1), one_meal)"
proof -
  have h: "length (filter (where_code ''B10'' ''7010569'') (school_info_table one_meal)) \<le> 1"
    by (simp add: example_defs)
  have n: "Meal.name (to_entity (bibimbap_row 1)) = Lunch"
    by (simp add: to_entity_def bibimbap_row_def)
  have f: "filter (\<lambda>(i, entity). Meal.name entity = Lunch) [(1, to_entity (bibimbap_row 1))]
             = [(1, to_entity (bibimbap_row 1))]"
    by (simp add: n)
  from h entries_one_meal n get_id_by_code_agrees_with_get_with_id_by_code [OF h entries_one_meal f]
  show ?thesis by (intro conjI)
qed

end
